theory Spec2Isabelle
  imports Complex_Main "HOL-Library.Word"
begin

section \<open>JavaScript values and errors\<close>

text \<open>
  The metadata of a character card is whatever \<^verbatim>\<open>JSON.parse\<close> or \<^verbatim>\<open>json5.parse\<close>
  returns: the TypeScript type \<^verbatim>\<open>CharacterMetadata\<close> is erased at run time, so a field
  may be absent or hold any value. A value is therefore a JavaScript value. An object is
  the list of its own properties (a parser yields each key once; a lookup takes the
  first entry of a key). Finite numbers are rationals (every double is one); \<^verbatim>\<open>NaN\<close>
  and the two infinities, which JSON5 can write, stand apart.
\<close>

datatype jsval =
    JUndefined
  | JNull
  | JBool bool
  | JNum rat
  | JNaN
  | JInfinity bool
  | JStr string
  | JArr "jsval list"
  | JObj "(string \<times> jsval) list"

text \<open>
  What the source throws: \<^verbatim>\<open>new Error(message)\<close> in \<^verbatim>\<open>fromFile\<close> and
  \<^verbatim>\<open>assertUnreachable\<close>, the \<^verbatim>\<open>SyntaxError\<close> of the two parsers, and the
  \<^verbatim>\<open>TypeError\<close> of a property read on \<^verbatim>\<open>null\<close> or \<^verbatim>\<open>undefined\<close>. An
  exception of a library that \<^verbatim>\<open>fromFile\<close> does not catch is an \<open>error\<close> too (the
  libraries throw \<^verbatim>\<open>Error\<close>s with messages of their own).
\<close>

datatype error =
    Error string
  | SyntaxError
  | TypeError

text \<open>The specification's names for the two messages the source throws.\<close>

abbreviation NoMetadataFound :: error where
  "NoMetadataFound \<equiv> Error ''No character data found!''"

abbreviation UnsupportedMediaType :: error where
  "UnsupportedMediaType \<equiv> Error ''Statement should be unreachable''"

text \<open>\<^verbatim>\<open>!!v\<close>: the falsy values are undefined, null, false, 0, NaN and the empty string.\<close>

fun truthy :: "jsval \<Rightarrow> bool" where
  "truthy JUndefined = False"
| "truthy JNull = False"
| "truthy (JBool b) = b"
| "truthy (JNum q) = (q \<noteq> 0)"
| "truthy JNaN = False"
| "truthy (JInfinity _) = True"
| "truthy (JStr s) = (s \<noteq> [])"
| "truthy (JArr _) = True"
| "truthy (JObj _) = True"

text \<open>An own property of an object; \<^verbatim>\<open>undefined\<close> when the key is absent.\<close>

definition own_prop :: "(string \<times> jsval) list \<Rightarrow> string \<Rightarrow> jsval" where
  "own_prop kvs k = (case map_of kvs k of None \<Rightarrow> JUndefined | Some v \<Rightarrow> v)"

text \<open>
  The property read \<^verbatim>\<open>v.k\<close>, for the keys the source reads (\<^verbatim>\<open>avatar\<close>,
  \<^verbatim>\<open>system_prompt\<close>, \<^verbatim>\<open>description\<close>, \<^verbatim>\<open>name\<close>, \<^verbatim>\<open>char_name\<close>,
  \<^verbatim>\<open>spec_version\<close>, \<^verbatim>\<open>data\<close>): it throws on \<^verbatim>\<open>undefined\<close> and \<^verbatim>\<open>null\<close>, and
  is \<^verbatim>\<open>undefined\<close> on a primitive or an array, whose prototypes have none of these keys.
\<close>

fun get_prop :: "jsval \<Rightarrow> string \<Rightarrow> error + jsval" where
  "get_prop JUndefined k = Inl TypeError"
| "get_prop JNull k = Inl TypeError"
| "get_prop (JObj kvs) k = Inr (own_prop kvs k)"
| "get_prop v k = Inr JUndefined"

section \<open>The Character class\<close>

record Character =
  metadata :: jsval
  fallbackAvatar :: string

text \<open>
  \<^verbatim>\<open>constructor(public metadata, private fallbackAvatar = '')\<close>: the second argument is
  optional and defaults to the empty string.
\<close>

definition new_Character :: "jsval \<Rightarrow> string option \<Rightarrow> Character" where
  "new_Character m fb =
     \<lparr>metadata = m, fallbackAvatar = (case fb of None \<Rightarrow> [] | Some s \<Rightarrow> s)\<rparr>"

text \<open>
  \<^verbatim>\<open>get avatar() { if (!!this.metadata.avatar && this.metadata.avatar !== 'none')
  return this.metadata.avatar; else return this.fallbackAvatar; }\<close>
\<close>

definition avatar :: "Character \<Rightarrow> error + jsval" where
  "avatar c =
     (case get_prop (metadata c) ''avatar'' of
        Inl e \<Rightarrow> Inl e
      | Inr a \<Rightarrow>
          if truthy a \<and> a \<noteq> JStr ''none'' then Inr a
          else Inr (JStr (fallbackAvatar c)))"

text \<open>
  \<^verbatim>\<open>get description() { return this.metadata.system_prompt ||
  this.metadata.description || ''; }\<close>
\<close>

definition description :: "Character \<Rightarrow> error + jsval" where
  "description c =
     (case get_prop (metadata c) ''system_prompt'' of
        Inl e \<Rightarrow> Inl e
      | Inr sp \<Rightarrow>
          if truthy sp then Inr sp
          else (case get_prop (metadata c) ''description'' of
                  Inl e \<Rightarrow> Inl e
                | Inr d \<Rightarrow> if truthy d then Inr d else Inr (JStr [])))"

text \<open>
  \<^verbatim>\<open>get name() { return this.metadata.name || this.metadata.char_name || ''; }\<close>
\<close>

definition name :: "Character \<Rightarrow> error + jsval" where
  "name c =
     (case get_prop (metadata c) ''name'' of
        Inl e \<Rightarrow> Inl e
      | Inr n \<Rightarrow>
          if truthy n then Inr n
          else (case get_prop (metadata c) ''char_name'' of
                  Inl e \<Rightarrow> Inl e
                | Inr cn \<Rightarrow> if truthy cn then Inr cn else Inr (JStr [])))"

section \<open>Collaborators\<close>

type_synonym bytes = "8 word list"

text \<open>\<^verbatim>\<open>type PngChunk = { name: ...; data: Uint8Array }\<close> of \<^verbatim>\<open>types.d.ts\<close>.\<close>

record PngChunk =
  chunk_name :: string
  chunk_data :: bytes

text \<open>What \<^verbatim>\<open>decode\<close> of \<^verbatim>\<open>png-chunk-text\<close> returns.\<close>

record TextChunk =
  keyword :: string
  chunk_text :: string

text \<open>
  A tag of \<^verbatim>\<open>exifreader\<close>, as far as the source reads it: the optional
  \<^verbatim>\<open>description\<close> string and the optional \<^verbatim>\<open>value\<close>, which the source casts to
  \<^verbatim>\<open>string[]\<close>. The tags of a file are a map from tag names.
\<close>

record ExifTag =
  tag_description :: "string option"
  tag_value :: "string list option"

type_synonym ExifData = "string \<rightharpoonup> ExifTag"

text \<open>
  The libraries and platform functions \<^verbatim>\<open>fromFile\<close> calls are not part of the
  repository; they are parameters of the model. A parser returns \<open>None\<close> where it
  throws its \<^verbatim>\<open>SyntaxError\<close>. The chunk splitter, the text chunk decoder and the tag
  reader throw on input they reject (no PNG signature, a zero byte inside the text of a
  \<^verbatim>\<open>tEXt\<close> chunk, a file that is no image): each returns \<open>Inl\<close> of the error it
  throws, which \<^verbatim>\<open>fromFile\<close> does not catch. The other functions return on every
  input.
  \<^item> \<open>JSON_parse\<close>: \<^verbatim>\<open>JSON.parse\<close>; \<open>json5_parse\<close>: \<^verbatim>\<open>json5.parse\<close>;
  \<^item> \<open>pngExtract\<close>, \<open>pngEncode\<close>, \<open>decode\<close>: \<^verbatim>\<open>png-chunks-extract\<close>,
    \<^verbatim>\<open>png-chunks-encode\<close> and \<^verbatim>\<open>decode\<close> of \<^verbatim>\<open>png-chunk-text\<close>;
  \<^item> \<open>load\<close>: \<^verbatim>\<open>load\<close> of \<^verbatim>\<open>exifreader\<close>;
  \<^item> \<open>toString_base64\<close>: \<^verbatim>\<open>Buffer.from(bytes).toString('base64')\<close>;
  \<^item> \<open>base64_toString_utf8\<close>: \<^verbatim>\<open>Buffer.from(text, 'base64').toString('utf8')\<close>;
  \<^item> \<open>utf8Decoder_decode\<close>: \<^verbatim>\<open>new TextDecoder('utf-8', { ignoreBOM: true }).decode\<close>;
  \<^item> \<open>Blob_text\<close>: what \<^verbatim>\<open>file.text()\<close> makes of the file's bytes;
  \<^item> \<open>ToUint8_Number_other\<close>: the byte that \<^verbatim>\<open>new Uint8Array([Number(s)])\<close> holds,
    for the strings \<open>ToUint8_Number\<close> below does not compute itself.
\<close>

record libs =
  JSON_parse :: "string \<Rightarrow> jsval option"
  json5_parse :: "string \<Rightarrow> jsval option"
  pngExtract :: "bytes \<Rightarrow> error + PngChunk list"
  pngEncode :: "PngChunk list \<Rightarrow> bytes"
  decode :: "bytes \<Rightarrow> error + TextChunk"
  load :: "bytes \<Rightarrow> error + ExifData"
  toString_base64 :: "bytes \<Rightarrow> string"
  base64_toString_utf8 :: "string \<Rightarrow> string"
  utf8Decoder_decode :: "bytes \<Rightarrow> string"
  Blob_text :: "bytes \<Rightarrow> string"
  ToUint8_Number_other :: "string \<Rightarrow> 8 word"

section \<open>The byte-array reading of a string\<close>

text \<open>
  \<^verbatim>\<open>data.split(',')\<close>: the pieces between the commas; the empty string gives one empty
  piece.
\<close>

fun split_comma :: "string \<Rightarrow> string list" where
  "split_comma [] = [[]]"
| "split_comma (c # cs) =
     (if c = CHR '','' then [] # split_comma cs
      else (case split_comma cs of
              [] \<Rightarrow> [[c]]
            | p # ps \<Rightarrow> (c # p) # ps))"

definition is_digits :: "string \<Rightarrow> bool" where
  "is_digits s = (s \<noteq> [] \<and> list_all (\<lambda>c. c \<in> set ''0123456789'') s)"

definition dec_val :: "string \<Rightarrow> nat" where
  "dec_val s = foldl (\<lambda>a c. 10 * a + (of_char c - 48)) 0 s"

text \<open>
  \<^verbatim>\<open>new Uint8Array(byteArr)\<close> stores each \<^verbatim>\<open>Number(piece)\<close> modulo 256. A piece of at
  most 15 decimal digits is below \<open>2 ^ 53\<close>, so \<^verbatim>\<open>Number\<close> reads it exactly and the
  byte is its value modulo 256. Every other piece (white space, a sign, a fraction, an
  exponent, a hexadecimal literal, a longer numeral that a double rounds, text that is
  no number and becomes \<^verbatim>\<open>NaN\<close>, hence 0) is left to the parameter.
\<close>

definition ToUint8_Number :: "libs \<Rightarrow> string \<Rightarrow> 8 word" where
  "ToUint8_Number L s =
     (if is_digits s \<and> length s \<le> 15 then of_nat (dec_val s)
      else ToUint8_Number_other L s)"

section \<open>Character.fromFile\<close>

record File =
  file_type :: string
  file_bytes :: bytes

text \<open>\<^verbatim>\<open>function assertUnreachable(_: never): never { throw new Error(...) }\<close>\<close>

definition assertUnreachable :: "string \<Rightarrow> error + Character" where
  "assertUnreachable _ = Inl (Error ''Statement should be unreachable'')"

text \<open>\<^verbatim>\<open>case 'application/json'\<close>\<close>

definition fromFile_json :: "libs \<Rightarrow> File \<Rightarrow> error + Character" where
  "fromFile_json L file =
     (let rawText = Blob_text L (file_bytes file)
      in case JSON_parse L rawText of
           None \<Rightarrow> Inl SyntaxError
         | Some card' \<Rightarrow> Inr (new_Character card' None))"

text \<open>
  \<^verbatim>\<open>.map((d) => decode(d.data))\<close>: the chunks are decoded in order, all of them, and
  the first chunk the decoder rejects throws.
\<close>

fun decode_chunks :: "libs \<Rightarrow> PngChunk list \<Rightarrow> error + TextChunk list" where
  "decode_chunks L [] = Inr []"
| "decode_chunks L (d # ds) =
     (case decode L (chunk_data d) of
        Inl e \<Rightarrow> Inl e
      | Inr t \<Rightarrow>
          (case decode_chunks L ds of
             Inl e \<Rightarrow> Inl e
           | Inr ts \<Rightarrow> Inr (t # ts)))"

text \<open>
  \<^verbatim>\<open>chunks.filter(...).map(...).find((d) => d.keyword === 'chara')\<close>: every
  \<^verbatim>\<open>tEXt\<close> chunk is decoded before the search, so a chunk the decoder rejects throws
  wherever it stands; otherwise the result is the first decoded chunk with the keyword
  \<^verbatim>\<open>chara\<close>, or \<^verbatim>\<open>undefined\<close>.
\<close>

definition extChunk :: "libs \<Rightarrow> PngChunk list \<Rightarrow> error + TextChunk option" where
  "extChunk L chunks =
     (case decode_chunks L (filter (\<lambda>chunk. chunk_name chunk = ''tEXt'') chunks) of
        Inl e \<Rightarrow> Inl e
      | Inr ds \<Rightarrow> Inr (find (\<lambda>d. keyword d = ''chara'') ds))"

text \<open>
  \<^verbatim>\<open>case 'image/png'\<close>: the first \<^verbatim>\<open>tEXt\<close> chunk with the keyword \<^verbatim>\<open>chara\<close>
  carries the card, and the avatar is the encoding of the chunks that are not
  \<^verbatim>\<open>tEXt\<close>. \<^verbatim>\<open>card.spec_version\<close> is read after the avatar is built.
\<close>

definition fromFile_png :: "libs \<Rightarrow> File \<Rightarrow> error + Character" where
  "fromFile_png L file =
     (let rawBuffer = file_bytes file
      in case pngExtract L rawBuffer of
           Inl e \<Rightarrow> Inl e
         | Inr chunks \<Rightarrow>
            (case extChunk L chunks of
               Inl e \<Rightarrow> Inl e
             | Inr None \<Rightarrow> Inl (Error ''No character data found!'')
             | Inr (Some ext) \<Rightarrow>
                 (case JSON_parse L (base64_toString_utf8 L (chunk_text ext)) of
                    None \<Rightarrow> Inl SyntaxError
                  | Some card' \<Rightarrow>
                      (let pngChunks = filter (\<lambda>chunk. chunk_name chunk \<noteq> ''tEXt'') chunks;
                           base64Avatar =
                             ''data:image/png;base64,'' @ toString_base64 L (pngEncode L pngChunks)
                       in case get_prop card' ''spec_version'' of
                            Inl e \<Rightarrow> Inl e
                          | Inr v \<Rightarrow>
                              if v = JStr ''2.0'' then
                                (case get_prop card' ''data'' of
                                   Inl e \<Rightarrow> Inl e
                                 | Inr d \<Rightarrow> Inr (new_Character d (Some base64Avatar)))
                              else Inr (new_Character card' (Some base64Avatar))))))"

text \<open>
  The body of \<^verbatim>\<open>if (!!data)\<close>: the direct parse, and in its \<^verbatim>\<open>catch\<close> the parse
  of the bytes the string lists.
\<close>

definition parse_value_element :: "libs \<Rightarrow> string \<Rightarrow> string \<Rightarrow> error + Character" where
  "parse_value_element L base64Avatar data =
     (case json5_parse L data of
        Some card' \<Rightarrow> Inr (new_Character card' (Some base64Avatar))
      | None \<Rightarrow>
          (let uint8Array = map (ToUint8_Number L) (split_comma data);
               utf8Data = utf8Decoder_decode L uint8Array
           in case json5_parse L utf8Data of
                None \<Rightarrow> Inl SyntaxError
              | Some card' \<Rightarrow> Inr (new_Character card' (Some base64Avatar))))"

text \<open>
  The body of \<^verbatim>\<open>case 'image/webp'\<close> after \<^verbatim>\<open>load\<close> has returned the tags. The
  outer \<^verbatim>\<open>if\<close> needs a \<^verbatim>\<open>UserComment\<close> with a truthy \<^verbatim>\<open>description\<close>; every
  path that does not return falls through to the final \<^verbatim>\<open>throw\<close>.
\<close>

definition fromExifData :: "libs \<Rightarrow> string \<Rightarrow> ExifData \<Rightarrow> error + Character" where
  "fromExifData L base64Avatar exifData =
     (let no_data = Inl (Error ''No character data found!'')
      in case exifData ''UserComment'' of
           None \<Rightarrow> no_data
         | Some userComment \<Rightarrow>
             (case tag_description userComment of
                None \<Rightarrow> no_data
              | Some descr \<Rightarrow>
                  if descr = [] then no_data
                  else if descr \<noteq> ''Undefined'' then
                    (case json5_parse L descr of
                       None \<Rightarrow> Inl SyntaxError
                     | Some card' \<Rightarrow> Inr (new_Character card' (Some base64Avatar)))
                  else
                    (case tag_value userComment of
                       None \<Rightarrow> no_data
                     | Some vs \<Rightarrow>
                         if length vs = 1 then
                           (let data = hd vs
                            in if data \<noteq> [] then parse_value_element L base64Avatar data
                               else no_data)
                         else no_data)))"

text \<open>
  \<^verbatim>\<open>case 'image/webp'\<close>: an exception of \<^verbatim>\<open>load\<close> leaves \<^verbatim>\<open>fromFile\<close>; the
  avatar is the whole file.
\<close>

definition fromFile_webp :: "libs \<Rightarrow> File \<Rightarrow> error + Character" where
  "fromFile_webp L file =
     (let rawBuffer = file_bytes file
      in case load L rawBuffer of
           Inl e \<Rightarrow> Inl e
         | Inr exifData \<Rightarrow>
             (let base64Avatar = ''data:image/webp;base64,'' @ toString_base64 L rawBuffer
              in fromExifData L base64Avatar exifData))"

text \<open>The \<^verbatim>\<open>switch\<close> on \<^verbatim>\<open>file.type\<close>.\<close>

definition fromFile :: "libs \<Rightarrow> File \<Rightarrow> error + Character" where
  "fromFile L file =
     (let fileType = file_type file
      in if fileType = ''application/json'' then fromFile_json L file
         else if fileType = ''image/png'' then fromFile_png L file
         else if fileType = ''image/webp'' then fromFile_webp L file
         else assertUnreachable fileType)"

section \<open>Sample collaborators and inputs\<close>

text \<open>
  Concrete collaborators, on which the model is evaluated. The parsers, the base64
  functions, the text chunk decoder and the text decoders agree with the libraries they
  stand for on the inputs used below; the parsers and the base64 decoder know only the
  few texts listed and reject (or return the empty text for) every other one. The
  chunk splitter and the tag reader return a given chunk list and a given tag map.
  The text chunk decoder rejects a zero byte inside the text, as the library does.
\<close>

definition card_v2_text :: string where
  \<open>card_v2_text = ''{"spec_version":"2.0","data":{"name":"Aqua"}}''\<close>

definition card_v1_text :: string where
  \<open>card_v1_text = ''{"char_name":"Aqua"}''\<close>

definition card_v2 :: jsval where
  "card_v2 =
     JObj [(''spec_version'', JStr ''2.0''), (''data'', JObj [(''name'', JStr ''Aqua'')])]"

definition card_v1 :: jsval where
  "card_v1 = JObj [(''char_name'', JStr ''Aqua'')]"

definition sample_JSON_parse :: "string \<Rightarrow> jsval option" where
  "sample_JSON_parse s =
     (if s = ''{}'' then Some (JObj [])
      else if s = ''null'' then Some JNull
      else if s = card_v2_text then Some card_v2
      else if s = card_v1_text then Some card_v1
      else None)"

definition sample_json5_parse :: "string \<Rightarrow> jsval option" where
  "sample_json5_parse s =
     (if s = ''{}'' then Some (JObj [])
      else if s = card_v1_text then Some card_v1
      else None)"

definition sample_base64_toString_utf8 :: "string \<Rightarrow> string" where
  "sample_base64_toString_utf8 s =
     (if s = ''e30='' then ''{}''
      else if s = ''eyJzcGVjX3ZlcnNpb24iOiIyLjAiLCJkYXRhIjp7Im5hbWUiOiJBcXVhIn19''
        then card_v2_text
      else if s = ''eyJjaGFyX25hbWUiOiJBcXVhIn0='' then card_v1_text
      else [])"

text \<open>Bytes below 128 as text, and back.\<close>

definition ascii_text :: "bytes \<Rightarrow> string" where
  "ascii_text bs = map (\<lambda>b. char_of (unat b)) bs"

definition ascii_bytes :: "string \<Rightarrow> bytes" where
  "ascii_bytes s = map (\<lambda>c. of_nat (of_char c)) s"

text \<open>The data of a \<^verbatim>\<open>tEXt\<close> chunk: keyword, a zero byte, text.\<close>

definition sample_decode :: "bytes \<Rightarrow> error + TextChunk" where
  "sample_decode bs =
     (let k = takeWhile (\<lambda>b. b \<noteq> 0) bs;
          t = drop 1 (dropWhile (\<lambda>b. b \<noteq> 0) bs)
      in if 0 \<in> set t then
           Inl (Error
             ''Invalid NULL character found. 0x00 character is not permitted in tEXt content'')
         else Inr \<lparr>keyword = ascii_text k, chunk_text = ascii_text t\<rparr>)"

definition tEXt :: "string \<Rightarrow> string \<Rightarrow> PngChunk" where
  "tEXt k t = \<lparr>chunk_name = ''tEXt'', chunk_data = ascii_bytes k @ [0] @ ascii_bytes t\<rparr>"

text \<open>
  A stand-in for the chunk encoder: the names and the data of the chunks in order (the
  library adds the signature, the lengths and the checksums).
\<close>

definition sample_pngEncode :: "PngChunk list \<Rightarrow> bytes" where
  "sample_pngEncode chunks = concat (map (\<lambda>c. ascii_bytes (chunk_name c) @ chunk_data c) chunks)"

text \<open>Base64 with padding.\<close>

definition b64_char :: "nat \<Rightarrow> char" where
  "b64_char n =
     ''ABCDEFGHIJKLMNOPQRSTUVWXYZabcdefghijklmnopqrstuvwxyz0123456789+/'' ! n"

fun base64_enc :: "bytes \<Rightarrow> string" where
  "base64_enc [] = []"
| "base64_enc [a] =
     (let m = unat a
      in [b64_char (m div 4), b64_char (m mod 4 * 16), CHR ''='', CHR ''=''])"
| "base64_enc [a, b] =
     (let m = unat a; n = unat b
      in [b64_char (m div 4), b64_char (m mod 4 * 16 + n div 16),
          b64_char (n mod 16 * 4), CHR ''=''])"
| "base64_enc (a # b # c # r) =
     (let m = unat a; n = unat b; k = unat c
      in [b64_char (m div 4), b64_char (m mod 4 * 16 + n div 16),
          b64_char (n mod 16 * 4 + k div 64), b64_char (k mod 64)] @ base64_enc r)"

definition sample_libs :: "PngChunk list \<Rightarrow> ExifData \<Rightarrow> libs" where
  "sample_libs chunks tags =
     \<lparr>JSON_parse = sample_JSON_parse,
      json5_parse = sample_json5_parse,
      pngExtract = (\<lambda>_. Inr chunks),
      pngEncode = sample_pngEncode,
      decode = sample_decode,
      load = (\<lambda>_. Inr tags),
      toString_base64 = base64_enc,
      base64_toString_utf8 = sample_base64_toString_utf8,
      utf8Decoder_decode = ascii_text,
      Blob_text = ascii_text,
      ToUint8_Number_other = (\<lambda>_. 0)\<rparr>"

definition user_comment :: "string option \<Rightarrow> string list option \<Rightarrow> ExifData" where
  "user_comment d v = [''UserComment'' \<mapsto> \<lparr>tag_description = d, tag_value = v\<rparr>]"

definition webp_file :: File where
  "webp_file = \<lparr>file_type = ''image/webp'', file_bytes = ascii_bytes ''RIFF''\<rparr>"

definition json_null_file :: File where
  "json_null_file = \<lparr>file_type = ''application/json'', file_bytes = ascii_bytes ''null''\<rparr>"

definition png_file :: File where
  "png_file = \<lparr>file_type = ''image/png'', file_bytes = [137, 80, 78, 71]\<rparr>"

definition IHDR :: PngChunk where
  "IHDR = \<lparr>chunk_name = ''IHDR'', chunk_data = [0, 0, 0, 1, 0, 0, 0, 1, 8, 0, 0, 0, 0]\<rparr>"

definition IDAT :: PngChunk where
  "IDAT = \<lparr>chunk_name = ''IDAT'', chunk_data = [120, 156, 99, 96, 0, 0, 0, 2, 0, 1]\<rparr>"

definition IEND :: PngChunk where
  "IEND = \<lparr>chunk_name = ''IEND'', chunk_data = []\<rparr>"

definition png_chunks_v2 :: "PngChunk list" where
  "png_chunks_v2 =
     [IHDR, tEXt ''chara'' ''eyJzcGVjX3ZlcnNpb24iOiIyLjAiLCJkYXRhIjp7Im5hbWUiOiJBcXVhIn19'',
      IDAT, IEND]"

definition png_chunks_v1 :: "PngChunk list" where
  "png_chunks_v1 = [IHDR, tEXt ''chara'' ''eyJjaGFyX25hbWUiOiJBcXVhIn0='', IDAT, IEND]"

definition png_chunks_bad_text :: "PngChunk list" where
  "png_chunks_bad_text =
     [IHDR, \<lparr>chunk_name = ''tEXt'', chunk_data = ascii_bytes ''Comment'' @ [0, 97, 0, 98]\<rparr>,
      IDAT, IEND]"

definition png_chunks_comment :: "PngChunk list" where
  "png_chunks_comment = [IHDR, tEXt ''chara'' ''e30='', tEXt ''Comment'' ''hello'', IDAT, IEND]"


section \<open>The accessors\<close>

lemma own_prop_Cons: "own_prop ((k, v) # kvs) k' = (if k' = k then v else own_prop kvs k')"
  by (simp add: own_prop_def)

lemma avatar_JObj:
  "avatar (new_Character (JObj kvs) fb) =
     Inr (if truthy (own_prop kvs ''avatar'') \<and> own_prop kvs ''avatar'' \<noteq> JStr ''none''
          then own_prop kvs ''avatar''
          else JStr (case fb of None \<Rightarrow> [] | Some s \<Rightarrow> s))"
  unfolding avatar_def new_Character_def by simp

lemma description_JObj:
  "description (new_Character (JObj kvs) fb) =
     Inr (if truthy (own_prop kvs ''system_prompt'') then own_prop kvs ''system_prompt''
          else if truthy (own_prop kvs ''description'') then own_prop kvs ''description''
          else JStr [])"
  unfolding description_def new_Character_def by simp

lemma name_JObj:
  "name (new_Character (JObj kvs) fb) =
     Inr (if truthy (own_prop kvs ''name'') then own_prop kvs ''name''
          else if truthy (own_prop kvs ''char_name'') then own_prop kvs ''char_name''
          else JStr [])"
  unfolding name_def new_Character_def by simp

lemma own_prop_legacy:
  assumes "k = ''char_persona'' \<or> k = ''first_mes'' \<or> k = ''char_greeting''"
  shows "own_prop ((k, v) # kvs) ''name'' = own_prop kvs ''name''"
    and "own_prop ((k, v) # kvs) ''char_name'' = own_prop kvs ''char_name''"
    and "own_prop ((k, v) # kvs) ''system_prompt'' = own_prop kvs ''system_prompt''"
    and "own_prop ((k, v) # kvs) ''description'' = own_prop kvs ''description''"
    and "own_prop ((k, v) # kvs) ''avatar'' = own_prop kvs ''avatar''"
  using assms by (auto simp add: own_prop_Cons)

text \<open>
  C4 (as the specification states it, refuted). The claim gives the persona concept a
  fallback to \<^verbatim>\<open>char_persona\<close>. On the metadata \<^verbatim>\<open>{char_persona: "A shy mage"}\<close> the
  \<^verbatim>\<open>description\<close> accessor returns the empty string, not the persona.
\<close>

theorem description_ignores_char_persona:
  "description (new_Character (JObj [(''char_persona'', JStr ''A shy mage'')]) None)
     = Inr (JStr [])
   \<and> description (new_Character (JObj [(''char_persona'', JStr ''A shy mage'')]) None)
     \<noteq> Inr (JStr ''A shy mage'')"
  by (simp add: description_JObj own_prop_def)

text \<open>
  C4 (amended). For every metadata object, only the name concept has an accessor that
  falls back to the legacy field: \<^verbatim>\<open>name\<close> returns \<^verbatim>\<open>name\<close> when it is truthy (for a
  string: non-empty), otherwise \<^verbatim>\<open>char_name\<close>, otherwise the empty string. The
  \<^verbatim>\<open>description\<close> accessor falls back from \<^verbatim>\<open>system_prompt\<close> to
  \<^verbatim>\<open>description\<close> and then to the empty string. No accessor reads \<^verbatim>\<open>char_persona\<close>,
  \<^verbatim>\<open>first_mes\<close> or \<^verbatim>\<open>char_greeting\<close>: setting any of them to any value changes the
  result of none of the three accessors.
\<close>

theorem legacy_field_fallbacks:
  assumes "k = ''char_persona'' \<or> k = ''first_mes'' \<or> k = ''char_greeting''"
  shows "name (new_Character (JObj kvs) fb) =
           Inr (if truthy (own_prop kvs ''name'') then own_prop kvs ''name''
                else if truthy (own_prop kvs ''char_name'') then own_prop kvs ''char_name''
                else JStr [])
         \<and> description (new_Character (JObj kvs) fb) =
           Inr (if truthy (own_prop kvs ''system_prompt'') then own_prop kvs ''system_prompt''
                else if truthy (own_prop kvs ''description'') then own_prop kvs ''description''
                else JStr [])
         \<and> name (new_Character (JObj ((k, v) # kvs)) fb) = name (new_Character (JObj kvs) fb)
         \<and> description (new_Character (JObj ((k, v) # kvs)) fb) =
             description (new_Character (JObj kvs) fb)
         \<and> avatar (new_Character (JObj ((k, v) # kvs)) fb) = avatar (new_Character (JObj kvs) fb)"
  unfolding name_JObj description_JObj avatar_JObj own_prop_legacy [OF assms] by simp

theorem legacy_field_fallbacks_witness:
  "name (new_Character (JObj [(''char_name'', JStr ''Aqua'')]) None) = Inr (JStr ''Aqua'')
   \<and> description (new_Character (JObj [(''char_name'', JStr ''Aqua'')]) None) = Inr (JStr [])
   \<and> description
        (new_Character (JObj [(''char_persona'', JStr ''A shy mage''), (''char_name'', JStr ''Aqua'')])
           None) = Inr (JStr [])"
  using legacy_field_fallbacks
    [of "''char_persona''" "[(''char_name'', JStr ''Aqua'')]" None "JStr ''A shy mage''"]
  by (simp add: own_prop_def)

lemma truthy_iff:
  "truthy v \<longleftrightarrow> v \<notin> {JUndefined, JNull, JBool False, JNum 0, JNaN, JStr []}"
  by (cases v) auto

lemma accessors_nullish:
  assumes "m = JNull \<or> m = JUndefined"
  shows "avatar (new_Character m fb) = Inl TypeError"
    and "description (new_Character m fb) = Inl TypeError"
    and "name (new_Character m fb) = Inl TypeError"
  using assms by (auto simp add: avatar_def description_def name_def new_Character_def)

lemma accessors_no_fields:
  assumes "m \<noteq> JNull" and "m \<noteq> JUndefined" and "\<forall>kvs. m \<noteq> JObj kvs"
  shows "avatar (new_Character m fb) = Inr (JStr (case fb of None \<Rightarrow> [] | Some s \<Rightarrow> s))"
    and "description (new_Character m fb) = Inr (JStr [])"
    and "name (new_Character m fb) = Inr (JStr [])"
  using assms by (cases m; simp add: avatar_def description_def name_def new_Character_def)+

text \<open>
  C5 (as the specification states it, refuted). A JSON document that is the text
  \<^verbatim>\<open>null\<close> parses, and \<^verbatim>\<open>fromFile\<close> returns a Character whose metadata is
  \<^verbatim>\<open>null\<close>. On it each of the three accessors reads a property of \<^verbatim>\<open>null\<close> and
  raises a \<^verbatim>\<open>TypeError\<close>.
\<close>

theorem accessors_raise_on_null_metadata:
  "fromFile (sample_libs [] Map.empty) json_null_file = Inr (new_Character JNull None)
   \<and> avatar (new_Character JNull None) = Inl TypeError
   \<and> description (new_Character JNull None) = Inl TypeError
   \<and> name (new_Character JNull None) = Inl TypeError"
proof -
  have "fromFile (sample_libs [] Map.empty) json_null_file = Inr (new_Character JNull None)"
    by code_simp
  then show ?thesis
    by (simp add: accessors_nullish)
qed

text \<open>
  C5 (amended). For every metadata value other than \<^verbatim>\<open>null\<close> and \<^verbatim>\<open>undefined\<close>,
  and every fallback avatar (given or not), the three accessors return a value, never
  an error, with fixed precedence. On a metadata record (an object) a field counts as
  empty when it is absent (\<^verbatim>\<open>undefined\<close>) or holds the empty string, \<^verbatim>\<open>null\<close>,
  \<^verbatim>\<open>false\<close>, \<^verbatim>\<open>0\<close> or \<^verbatim>\<open>NaN\<close>. \<^verbatim>\<open>avatar\<close>: the metadata's \<^verbatim>\<open>avatar\<close> when
  it is neither empty nor the string \<^verbatim>\<open>"none"\<close>, otherwise the fallback avatar, which
  is the empty string when none was given. \<^verbatim>\<open>description\<close>: \<^verbatim>\<open>system_prompt\<close>
  when not empty, otherwise \<^verbatim>\<open>description\<close> when not empty, otherwise the empty
  string. \<^verbatim>\<open>name\<close>: \<^verbatim>\<open>name\<close> when not empty, otherwise \<^verbatim>\<open>char_name\<close> when not
  empty, otherwise the empty string. A metadata value that is no object and neither
  \<^verbatim>\<open>null\<close> nor \<^verbatim>\<open>undefined\<close> has none of these fields, so the accessors return
  the fallback avatar and the empty string. When the metadata is \<^verbatim>\<open>null\<close> or
  \<^verbatim>\<open>undefined\<close>, each accessor raises a \<^verbatim>\<open>TypeError\<close>.
\<close>

theorem accessors_precedence:
  "avatar (new_Character (JObj kvs) fb) =
     Inr (if own_prop kvs ''avatar''
               \<in> {JUndefined, JNull, JBool False, JNum 0, JNaN, JStr [], JStr ''none''}
          then JStr (case fb of None \<Rightarrow> [] | Some s \<Rightarrow> s)
          else own_prop kvs ''avatar'')
   \<and> description (new_Character (JObj kvs) fb) =
     Inr (if own_prop kvs ''system_prompt''
               \<notin> {JUndefined, JNull, JBool False, JNum 0, JNaN, JStr []}
          then own_prop kvs ''system_prompt''
          else if own_prop kvs ''description''
               \<notin> {JUndefined, JNull, JBool False, JNum 0, JNaN, JStr []}
          then own_prop kvs ''description''
          else JStr [])
   \<and> name (new_Character (JObj kvs) fb) =
     Inr (if own_prop kvs ''name'' \<notin> {JUndefined, JNull, JBool False, JNum 0, JNaN, JStr []}
          then own_prop kvs ''name''
          else if own_prop kvs ''char_name''
               \<notin> {JUndefined, JNull, JBool False, JNum 0, JNaN, JStr []}
          then own_prop kvs ''char_name''
          else JStr [])
   \<and> (m \<noteq> JNull \<and> m \<noteq> JUndefined \<and> (\<forall>kvs'. m \<noteq> JObj kvs') \<longrightarrow>
        avatar (new_Character m fb) = Inr (JStr (case fb of None \<Rightarrow> [] | Some s \<Rightarrow> s))
        \<and> description (new_Character m fb) = Inr (JStr [])
        \<and> name (new_Character m fb) = Inr (JStr []))
   \<and> (m = JNull \<or> m = JUndefined \<longrightarrow>
        avatar (new_Character m fb) = Inl TypeError
        \<and> description (new_Character m fb) = Inl TypeError
        \<and> name (new_Character m fb) = Inl TypeError)"
proof (intro conjI impI)
  show "avatar (new_Character (JObj kvs) fb) =
     Inr (if own_prop kvs ''avatar''
               \<in> {JUndefined, JNull, JBool False, JNum 0, JNaN, JStr [], JStr ''none''}
          then JStr (case fb of None \<Rightarrow> [] | Some s \<Rightarrow> s)
          else own_prop kvs ''avatar'')"
    unfolding avatar_JObj truthy_iff by auto
  show "description (new_Character (JObj kvs) fb) =
     Inr (if own_prop kvs ''system_prompt''
               \<notin> {JUndefined, JNull, JBool False, JNum 0, JNaN, JStr []}
          then own_prop kvs ''system_prompt''
          else if own_prop kvs ''description''
               \<notin> {JUndefined, JNull, JBool False, JNum 0, JNaN, JStr []}
          then own_prop kvs ''description''
          else JStr [])"
    unfolding description_JObj truthy_iff by (rule refl)
  show "name (new_Character (JObj kvs) fb) =
     Inr (if own_prop kvs ''name'' \<notin> {JUndefined, JNull, JBool False, JNum 0, JNaN, JStr []}
          then own_prop kvs ''name''
          else if own_prop kvs ''char_name''
               \<notin> {JUndefined, JNull, JBool False, JNum 0, JNaN, JStr []}
          then own_prop kvs ''char_name''
          else JStr [])"
    unfolding name_JObj truthy_iff by (rule refl)
next
  assume "m \<noteq> JNull \<and> m \<noteq> JUndefined \<and> (\<forall>kvs'. m \<noteq> JObj kvs')"
  then have "m \<noteq> JNull" and "m \<noteq> JUndefined" and "\<forall>kvs'. m \<noteq> JObj kvs'"
    by simp_all
  then show "avatar (new_Character m fb) = Inr (JStr (case fb of None \<Rightarrow> [] | Some s \<Rightarrow> s))"
    and "description (new_Character m fb) = Inr (JStr [])"
    and "name (new_Character m fb) = Inr (JStr [])"
    by (rule accessors_no_fields)+
next
  assume "m = JNull \<or> m = JUndefined"
  then show "avatar (new_Character m fb) = Inl TypeError"
    and "description (new_Character m fb) = Inl TypeError"
    and "name (new_Character m fb) = Inl TypeError"
    by (rule accessors_nullish)+
qed

theorem accessors_precedence_witness:
  "avatar (new_Character
       (JObj [(''avatar'', JStr ''none''), (''system_prompt'', JStr []),
              (''description'', JStr ''A shy mage''), (''char_name'', JStr ''Aqua'')])
       (Some ''data:image/png;base64,AAAA'')) = Inr (JStr ''data:image/png;base64,AAAA'')
   \<and> description (new_Character
       (JObj [(''avatar'', JStr ''none''), (''system_prompt'', JStr []),
              (''description'', JStr ''A shy mage''), (''char_name'', JStr ''Aqua'')])
       (Some ''data:image/png;base64,AAAA'')) = Inr (JStr ''A shy mage'')
   \<and> name (new_Character
       (JObj [(''avatar'', JStr ''none''), (''system_prompt'', JStr []),
              (''description'', JStr ''A shy mage''), (''char_name'', JStr ''Aqua'')])
       (Some ''data:image/png;base64,AAAA'')) = Inr (JStr ''Aqua'')
   \<and> avatar (new_Character
       (JObj [(''avatar'', JStr ''aqua.png''), (''system_prompt'', JStr ''You are Aqua.''),
              (''description'', JStr ''A shy mage''), (''name'', JStr ''Aqua''),
              (''char_name'', JStr ''Old Aqua'')])
       None) = Inr (JStr ''aqua.png'')
   \<and> description (new_Character
       (JObj [(''avatar'', JStr ''aqua.png''), (''system_prompt'', JStr ''You are Aqua.''),
              (''description'', JStr ''A shy mage''), (''name'', JStr ''Aqua''),
              (''char_name'', JStr ''Old Aqua'')])
       None) = Inr (JStr ''You are Aqua.'')
   \<and> name (new_Character
       (JObj [(''avatar'', JStr ''aqua.png''), (''system_prompt'', JStr ''You are Aqua.''),
              (''description'', JStr ''A shy mage''), (''name'', JStr ''Aqua''),
              (''char_name'', JStr ''Old Aqua'')])
       None) = Inr (JStr ''Aqua'')
   \<and> avatar (new_Character (JObj []) None) = Inr (JStr [])
   \<and> name (new_Character JNull None) = Inl TypeError"
  using accessors_precedence
    [of "[(''avatar'', JStr ''none''), (''system_prompt'', JStr []),
          (''description'', JStr ''A shy mage''), (''char_name'', JStr ''Aqua'')]"
        "Some ''data:image/png;base64,AAAA''" JNull]
    accessors_precedence
    [of "[(''avatar'', JStr ''aqua.png''), (''system_prompt'', JStr ''You are Aqua.''),
          (''description'', JStr ''A shy mage''), (''name'', JStr ''Aqua''),
          (''char_name'', JStr ''Old Aqua'')]" None JNull]
    accessors_precedence [of "[]" None JNull]
  by (simp add: own_prop_def)

section \<open>Extraction from WebP\<close>

lemma fromFile_webp_type:
  "file_type f = ''image/webp'' \<Longrightarrow> fromFile L f = fromFile_webp L f"
  by (simp add: fromFile_def)

lemma fromFile_webp_loaded:
  assumes "file_type f = ''image/webp''"
    and "load L (file_bytes f) = Inr exif"
  shows "fromFile L f =
    fromExifData L (''data:image/webp;base64,'' @ toString_base64 L (file_bytes f)) exif"
  using assms(2) by (simp add: fromFile_webp_type [OF assms(1)] fromFile_webp_def)

text \<open>An exception of the tag reader leaves \<^verbatim>\<open>fromFile\<close> as it is.\<close>

lemma fromFile_webp_load_error:
  assumes "file_type f = ''image/webp''"
    and "load L (file_bytes f) = Inl e"
  shows "fromFile L f = Inl e"
  using assms(2) by (simp add: fromFile_webp_type [OF assms(1)] fromFile_webp_def)

lemma fromExifData_Undefined:
  assumes "exif ''UserComment'' = Some uc"
    and "tag_description uc = Some ''Undefined''"
  shows "fromExifData L a exif =
    (case tag_value uc of
       None \<Rightarrow> Inl NoMetadataFound
     | Some vs \<Rightarrow>
         if length vs = 1 \<and> hd vs \<noteq> [] then parse_value_element L a (hd vs)
         else Inl NoMetadataFound)"
  using assms by (simp add: fromExifData_def Let_def split: option.splits)

lemma parse_value_element_error:
  "parse_value_element L a d = Inl e \<Longrightarrow> e = SyntaxError"
  by (auto simp add: parse_value_element_def Let_def split: option.splits)

lemma parse_value_element_fails:
  assumes "json5_parse L x = None"
    and "json5_parse L (utf8Decoder_decode L (map (ToUint8_Number L) (split_comma x))) = None"
  shows "parse_value_element L a x = Inl SyntaxError"
  using assms by (simp add: parse_value_element_def Let_def)

lemma fromExifData_cases:
  "fromExifData L a exif =
    (case exif ''UserComment'' of
       None \<Rightarrow> Inl NoMetadataFound
     | Some uc \<Rightarrow>
        (case tag_description uc of
           None \<Rightarrow> Inl NoMetadataFound
         | Some d \<Rightarrow>
            if d = [] then Inl NoMetadataFound
            else if d \<noteq> ''Undefined'' then
              (case json5_parse L d of
                 None \<Rightarrow> Inl SyntaxError
               | Some m \<Rightarrow> Inr (new_Character m (Some a)))
            else
              (case tag_value uc of
                 None \<Rightarrow> Inl NoMetadataFound
               | Some vs \<Rightarrow>
                  if length vs \<noteq> 1 \<or> vs = [[]] then Inl NoMetadataFound
                  else parse_value_element L a (hd vs))))"
  by (auto simp add: fromExifData_def Let_def length_Suc_conv split: option.splits)





text \<open>
  C2 (as the specification states it, refuted). With the description \<^verbatim>\<open>"Undefined"\<close>
  and the value \<^verbatim>\<open>["x"]\<close>, the direct parse fails and so does the parse of the bytes
  the string lists (\<^verbatim>\<open>Number("x")\<close> is \<^verbatim>\<open>NaN\<close>, stored as the byte 0). No parse
  attempt yields a record, and the extraction fails with the parser's
  \<^verbatim>\<open>SyntaxError\<close>, not with \<open>NoMetadataFound\<close>.
\<close>

theorem webp_parse_failure_is_SyntaxError:
  "json5_parse (sample_libs [] (user_comment (Some ''Undefined'') (Some [''x'']))) ''x'' = None
   \<and> json5_parse (sample_libs [] (user_comment (Some ''Undefined'') (Some [''x''])))
        (utf8Decoder_decode (sample_libs [] (user_comment (Some ''Undefined'') (Some [''x''])))
           (map (ToUint8_Number (sample_libs [] (user_comment (Some ''Undefined'') (Some [''x'']))))
              (split_comma ''x''))) = None
   \<and> fromFile (sample_libs [] (user_comment (Some ''Undefined'') (Some [''x'']))) webp_file
        = Inl SyntaxError
   \<and> fromFile (sample_libs [] (user_comment (Some ''Undefined'') (Some [''x'']))) webp_file
        \<noteq> Inl NoMetadataFound"
  by (simp add: fromFile_def fromFile_webp_def fromExifData_def parse_value_element_def
      webp_file_def sample_libs_def user_comment_def sample_json5_parse_def ToUint8_Number_def
      is_digits_def ascii_text_def card_v1_text_def)

text \<open>
  C2 (amended). For every WebP input whose tags the tag reader returns: extraction fails
  with \<open>NoMetadataFound\<close> exactly when the fallback chain reaches no parse attempt,
  that is, when there is no \<^verbatim>\<open>UserComment\<close> tag, or its description is absent or
  empty, or the description is \<^verbatim>\<open>"Undefined"\<close> and the value is absent, is not of
  length exactly 1, or has the empty string as its single element. When the description
  is non-empty, is not the sentinel and fails to parse, extraction fails with the
  parser's \<^verbatim>\<open>SyntaxError\<close>; when on the value-array path both the direct parse and
  the parse of the decoded bytes fail, extraction fails with the parser's
  \<^verbatim>\<open>SyntaxError\<close>. Extraction fails with no third kind of error.
\<close>

theorem webp_no_metadata:
  assumes "file_type f = ''image/webp''"
    and "load L (file_bytes f) = Inr exif"
  shows "(fromFile L f = Inl NoMetadataFound \<longleftrightarrow>
           (case exif ''UserComment'' of
              None \<Rightarrow> True
            | Some uc \<Rightarrow>
               (case tag_description uc of
                  None \<Rightarrow> True
                | Some d \<Rightarrow>
                    d = [] \<or>
                    (d = ''Undefined'' \<and>
                     (case tag_value uc of
                        None \<Rightarrow> True
                      | Some vs \<Rightarrow> length vs \<noteq> 1 \<or> vs = [[]])))))
         \<and> (\<forall>uc d. exif ''UserComment'' = Some uc \<and> tag_description uc = Some d
                \<and> d \<noteq> [] \<and> d \<noteq> ''Undefined'' \<and> json5_parse L d = None
              \<longrightarrow> fromFile L f = Inl SyntaxError)
         \<and> (\<forall>uc x. exif ''UserComment'' = Some uc
                \<and> tag_description uc = Some ''Undefined'' \<and> tag_value uc = Some [x]
                \<and> x \<noteq> [] \<and> json5_parse L x = None
                \<and> json5_parse L
                     (utf8Decoder_decode L (map (ToUint8_Number L) (split_comma x))) = None
              \<longrightarrow> fromFile L f = Inl SyntaxError)
         \<and> (\<forall>e. fromFile L f = Inl e \<longrightarrow> e = NoMetadataFound \<or> e = SyntaxError)"
proof -
  let ?a = "''data:image/webp;base64,'' @ toString_base64 L (file_bytes f)"
  have A: "fromFile L f = fromExifData L ?a exif"
    by (rule fromFile_webp_loaded [OF assms])
  have B: "parse_value_element L a d \<noteq> Inl NoMetadataFound" for a d
    using parse_value_element_error [of L a d NoMetadataFound] by auto
  have C: "parse_value_element L a d = Inl e \<Longrightarrow> e = SyntaxError" for a d e
    by (rule parse_value_element_error)
  have 1: "fromExifData L ?a exif = Inl NoMetadataFound \<longleftrightarrow>
           (case exif ''UserComment'' of
              None \<Rightarrow> True
            | Some uc \<Rightarrow>
               (case tag_description uc of
                  None \<Rightarrow> True
                | Some d \<Rightarrow>
                    d = [] \<or>
                    (d = ''Undefined'' \<and>
                     (case tag_value uc of
                        None \<Rightarrow> True
                      | Some vs \<Rightarrow> length vs \<noteq> 1 \<or> vs = [[]]))))"
    unfolding fromExifData_cases by (auto simp add: B split: option.splits)
  have 2: "fromExifData L ?a exif = Inl SyntaxError"
    if "exif ''UserComment'' = Some uc \<and> tag_description uc = Some d
        \<and> d \<noteq> [] \<and> d \<noteq> ''Undefined'' \<and> json5_parse L d = None" for uc d
    using that unfolding fromExifData_cases by simp
  have 3: "fromExifData L ?a exif = Inl SyntaxError"
    if "exif ''UserComment'' = Some uc
        \<and> tag_description uc = Some ''Undefined'' \<and> tag_value uc = Some [x]
        \<and> x \<noteq> [] \<and> json5_parse L x = None
        \<and> json5_parse L (utf8Decoder_decode L (map (ToUint8_Number L) (split_comma x))) = None"
    for uc x
    using that unfolding fromExifData_cases by (simp add: parse_value_element_fails)
  have 4: "e = NoMetadataFound \<or> e = SyntaxError" if "fromExifData L ?a exif = Inl e" for e
    using that unfolding fromExifData_cases
    by (auto dest: C split: option.splits if_splits)
  show ?thesis
    unfolding A using 1 2 3 4 by blast
qed

theorem webp_no_metadata_witness:
  "fromFile (sample_libs [] (user_comment (Some ''Undefined'') (Some [''{}'', ''{}'']))) webp_file
     = Inl NoMetadataFound
   \<and> fromFile (sample_libs [] (user_comment (Some ''Undefined'') (Some [''x'']))) webp_file
     = Inl SyntaxError"
proof -
  let ?L = "sample_libs [] (user_comment (Some ''Undefined'') (Some [''{}'', ''{}'']))"
  let ?L' = "sample_libs [] (user_comment (Some ''Undefined'') (Some [''x'']))"
  let ?uc' = "\<lparr>tag_description = Some ''Undefined'', tag_value = Some [''x'']\<rparr>"
  have 1: "file_type webp_file = ''image/webp''"
    by (simp add: webp_file_def)
  have 2: "load ?L (file_bytes webp_file)
           = Inr (user_comment (Some ''Undefined'') (Some [''{}'', ''{}'']))"
    by (simp add: sample_libs_def)
  have 3: "load ?L' (file_bytes webp_file) = Inr (user_comment (Some ''Undefined'') (Some [''x'']))"
    by (simp add: sample_libs_def)
  have 4: "user_comment (Some ''Undefined'') (Some [''x'']) ''UserComment'' = Some ?uc'"
    by (simp add: user_comment_def)
  have 5: "json5_parse ?L' ''x'' = None"
    by code_simp
  have 6: "json5_parse ?L' (utf8Decoder_decode ?L' (map (ToUint8_Number ?L') (split_comma ''x'')))
           = None"
    by code_simp
  have A: "fromFile ?L webp_file = Inl NoMetadataFound"
    using webp_no_metadata [OF 1 2] by (simp add: user_comment_def)
  have B: "fromFile ?L' webp_file = Inl SyntaxError"
    using webp_no_metadata [OF 1 3] 4 5 6 by simp
  show ?thesis
    using A B by (rule conjI)
qed



text \<open>
  C10. For every WebP input whose description is \<^verbatim>\<open>"Undefined"\<close> and whose value is
  the one-element array holding the empty string, extraction fails with
  \<open>NoMetadataFound\<close>, whatever the parsers would make of the empty string: the element
  is not parsed.
\<close>

theorem webp_empty_element:
  assumes "file_type f = ''image/webp''"
    and "load L (file_bytes f) = Inr exif"
    and "exif ''UserComment'' = Some uc"
    and "tag_description uc = Some ''Undefined''"
    and "tag_value uc = Some [[]]"
  shows "fromFile L f = Inl NoMetadataFound"
  using fromExifData_Undefined [where exif = exif and uc = uc, OF assms(3,4)] assms(5)
  by (simp add: fromFile_webp_loaded [OF assms(1,2)])

theorem webp_empty_element_witness:
  "fromFile (sample_libs [] (user_comment (Some ''Undefined'') (Some [[]]))) webp_file
     = Inl NoMetadataFound"
  using webp_empty_element
    [of webp_file "sample_libs [] (user_comment (Some ''Undefined'') (Some [[]]))"
        "user_comment (Some ''Undefined'') (Some [[]])"
        "\<lparr>tag_description = Some ''Undefined'', tag_value = Some [[]]\<rparr>"]
  by (simp add: webp_file_def sample_libs_def user_comment_def)

section \<open>Extraction from PNG\<close>

lemma fromFile_png_type:
  "file_type f = ''image/png'' \<Longrightarrow> fromFile L f = fromFile_png L f"
  by (simp add: fromFile_def)

text \<open>An exception of the chunk splitter or of the text chunk decoder leaves \<^verbatim>\<open>fromFile\<close>.\<close>

lemma fromFile_png_extract_error:
  assumes "file_type f = ''image/png''"
    and "pngExtract L (file_bytes f) = Inl e"
  shows "fromFile L f = Inl e"
  using assms(2) by (simp add: fromFile_png_type [OF assms(1)] fromFile_png_def)

lemma fromFile_png_decode_error:
  assumes "file_type f = ''image/png''"
    and "pngExtract L (file_bytes f) = Inr chunks"
    and "extChunk L chunks = Inl e"
  shows "fromFile L f = Inl e"
  using assms(2,3) by (simp add: fromFile_png_type [OF assms(1)] fromFile_png_def)

lemma png_rejected_text_chunk:
  "fromFile (sample_libs png_chunks_bad_text Map.empty) png_file =
     Inl (Error ''Invalid NULL character found. 0x00 character is not permitted in tEXt content'')"
  by code_simp

lemma fromFile_png_found:
  assumes "file_type f = ''image/png''"
    and "pngExtract L (file_bytes f) = Inr chunks"
    and "extChunk L chunks = Inr (Some ext)"
    and "JSON_parse L (base64_toString_utf8 L (chunk_text ext)) = Some (JObj kvs)"
  shows "fromFile L f =
     Inr (new_Character
            (if own_prop kvs ''spec_version'' = JStr ''2.0'' then own_prop kvs ''data''
             else JObj kvs)
            (Some (''data:image/png;base64,'' @
                   toString_base64 L
                     (pngEncode L (filter (\<lambda>chunk. chunk_name chunk \<noteq> ''tEXt'') chunks)))))"
  using assms(2-4) by (simp add: fromFile_png_type [OF assms(1)] fromFile_png_def Let_def)

lemma decode_chunks_map:
  "map (\<lambda>c. decode L (chunk_data c)) cs = map Inr ds \<Longrightarrow> decode_chunks L cs = Inr ds"
  by (induction cs arbitrary: ds) auto


text \<open>
  C6. For every PNG input whose chunks are split, whose \<^verbatim>\<open>tEXt\<close> chunks decode (to
  the text chunks \<open>ds\<close>, in order), and whose \<^verbatim>\<open>chara\<close> text chunk (the first of
  \<open>ds\<close> with that keyword) holds base64 text that decodes and parses to a JSON object:
  the result is a Character, and its metadata is the object's \<^verbatim>\<open>data\<close> field when
  the object's \<^verbatim>\<open>spec_version\<close> is exactly the string \<^verbatim>\<open>"2.0"\<close>, and the object
  itself for every other \<^verbatim>\<open>spec_version\<close> and for none.
\<close>

theorem png_spec_version:
  assumes "file_type f = ''image/png''"
    and "pngExtract L (file_bytes f) = Inr chunks"
    and "map (\<lambda>c. decode L (chunk_data c)) (filter (\<lambda>c. chunk_name c = ''tEXt'') chunks)
         = map Inr ds"
    and "find (\<lambda>d. keyword d = ''chara'') ds = Some ext"
    and "JSON_parse L (base64_toString_utf8 L (chunk_text ext)) = Some (JObj kvs)"
  shows "\<exists>c. fromFile L f = Inr c \<and>
             metadata c =
               (if own_prop kvs ''spec_version'' = JStr ''2.0'' then own_prop kvs ''data''
                else JObj kvs)"
proof -
  have "extChunk L chunks = Inr (Some ext)"
    using decode_chunks_map [OF assms(3)] assms(4) by (simp add: extChunk_def)
  from fromFile_png_found [OF assms(1,2) this assms(5)]
  show ?thesis
    by (simp add: new_Character_def)
qed

theorem png_spec_version_witness:
  "(\<exists>c. fromFile (sample_libs png_chunks_v2 Map.empty) png_file = Inr c
       \<and> metadata c = JObj [(''name'', JStr ''Aqua'')])
   \<and> (\<exists>c. fromFile (sample_libs png_chunks_v1 Map.empty) png_file = Inr c
       \<and> metadata c = JObj [(''char_name'', JStr ''Aqua'')])"
proof -
  let ?L = "sample_libs png_chunks_v2 Map.empty"
  let ?ext = "\<lparr>keyword = ''chara'',
      chunk_text = ''eyJzcGVjX3ZlcnNpb24iOiIyLjAiLCJkYXRhIjp7Im5hbWUiOiJBcXVhIn19''\<rparr>"
  let ?L' = "sample_libs png_chunks_v1 Map.empty"
  let ?ext' = "\<lparr>keyword = ''chara'', chunk_text = ''eyJjaGFyX25hbWUiOiJBcXVhIn0=''\<rparr>"
  have 1: "file_type png_file = ''image/png''"
    by (simp add: png_file_def)
  have 2: "pngExtract ?L (file_bytes png_file) = Inr png_chunks_v2"
    by (simp add: sample_libs_def)
  have 3: "map (\<lambda>c. decode ?L (chunk_data c))
             (filter (\<lambda>c. chunk_name c = ''tEXt'') png_chunks_v2) = map Inr [?ext]"
    by code_simp
  have F: "find (\<lambda>d. keyword d = ''chara'') [?ext] = Some ?ext"
    by simp
  have 4: "JSON_parse ?L (base64_toString_utf8 ?L (chunk_text ?ext))
           = Some (JObj [(''spec_version'', JStr ''2.0''),
                         (''data'', JObj [(''name'', JStr ''Aqua'')])])"
    by code_simp
  have 5: "pngExtract ?L' (file_bytes png_file) = Inr png_chunks_v1"
    by (simp add: sample_libs_def)
  have 6: "map (\<lambda>c. decode ?L' (chunk_data c))
             (filter (\<lambda>c. chunk_name c = ''tEXt'') png_chunks_v1) = map Inr [?ext']"
    by code_simp
  have G: "find (\<lambda>d. keyword d = ''chara'') [?ext'] = Some ?ext'"
    by simp
  have 7: "JSON_parse ?L' (base64_toString_utf8 ?L' (chunk_text ?ext'))
           = Some (JObj [(''char_name'', JStr ''Aqua'')])"
    by code_simp
  have A: "\<exists>c. fromFile ?L png_file = Inr c \<and> metadata c = JObj [(''name'', JStr ''Aqua'')]"
    using png_spec_version [OF 1 2 3 F 4] by (simp add: own_prop_def)
  have B: "\<exists>c. fromFile ?L' png_file = Inr c \<and> metadata c = JObj [(''char_name'', JStr ''Aqua'')]"
    using png_spec_version [OF 1 5 6 G 7] by (simp add: own_prop_def)
  show ?thesis
    using A B by (rule conjI)
qed



text \<open>
  C8 (as the specification states it, refuted). The chunks are \<^verbatim>\<open>IHDR\<close>, the
  \<^verbatim>\<open>chara\<close> text chunk, a text chunk with the keyword \<^verbatim>\<open>Comment\<close>, \<^verbatim>\<open>IDAT\<close>,
  \<^verbatim>\<open>IEND\<close>. Extraction succeeds, and the fallback avatar encodes \<^verbatim>\<open>IHDR\<close>,
  \<^verbatim>\<open>IDAT\<close>, \<^verbatim>\<open>IEND\<close>: the \<^verbatim>\<open>Comment\<close> chunk is gone too, so the avatar is not the
  encoding of the chunks with only the \<^verbatim>\<open>chara\<close> chunk removed.
\<close>

theorem png_other_text_chunk_dropped:
  "fromFile (sample_libs png_chunks_comment Map.empty) png_file =
     Inr (new_Character (JObj [])
            (Some (''data:image/png;base64,'' @
                   toString_base64 (sample_libs png_chunks_comment Map.empty)
                     (pngEncode (sample_libs png_chunks_comment Map.empty) [IHDR, IDAT, IEND]))))
   \<and> toString_base64 (sample_libs png_chunks_comment Map.empty)
        (pngEncode (sample_libs png_chunks_comment Map.empty) [IHDR, IDAT, IEND])
     \<noteq> toString_base64 (sample_libs png_chunks_comment Map.empty)
        (pngEncode (sample_libs png_chunks_comment Map.empty)
           [IHDR, tEXt ''Comment'' ''hello'', IDAT, IEND])"
  by code_simp

text \<open>
  C8 (amended). For every PNG input from which extraction succeeds, the fallback avatar
  is the PNG data URI of the re-encoding of the original chunk sequence with every
  \<^verbatim>\<open>tEXt\<close> chunk removed (the \<^verbatim>\<open>chara\<close> chunk and the text chunks with other
  keywords alike); every chunk that is not \<^verbatim>\<open>tEXt\<close> is kept, unchanged and in order.
\<close>

theorem png_fallback_avatar:
  assumes "file_type f = ''image/png''"
    and "fromFile L f = Inr c"
  shows "\<exists>chunks. pngExtract L (file_bytes f) = Inr chunks \<and>
     fallbackAvatar c =
       ''data:image/png;base64,'' @
         toString_base64 L
           (pngEncode L (filter (\<lambda>chunk. chunk_name chunk \<noteq> ''tEXt'') chunks))"
  using assms(2) unfolding fromFile_png_type [OF assms(1)]
  by (auto simp add: fromFile_png_def Let_def new_Character_def
      split: option.splits sum.splits if_splits)

theorem png_fallback_avatar_witness:
  "fallbackAvatar (new_Character (JObj []) (Some
      ''data:image/png;base64,SUhEUgAAAAEAAAABCAAAAABJREFUeJxjYAAAAAIAAUlFTkQ=''))
   = ''data:image/png;base64,'' @
       toString_base64 (sample_libs png_chunks_comment Map.empty)
         (pngEncode (sample_libs png_chunks_comment Map.empty) [IHDR, IDAT, IEND])"
proof -
  let ?L = "sample_libs png_chunks_comment Map.empty"
  let ?c = "new_Character (JObj []) (Some
      ''data:image/png;base64,SUhEUgAAAAEAAAABCAAAAABJREFUeJxjYAAAAAIAAUlFTkQ='')"
  have 1: "file_type png_file = ''image/png''"
    by (simp add: png_file_def)
  have 2: "fromFile ?L png_file = Inr ?c"
    by code_simp
  have 3: "pngExtract ?L (file_bytes png_file) = Inr png_chunks_comment"
    by (simp add: sample_libs_def)
  have 4: "filter (\<lambda>chunk. chunk_name chunk \<noteq> ''tEXt'') png_chunks_comment = [IHDR, IDAT, IEND]"
    by code_simp
  show ?thesis
    using png_fallback_avatar [OF 1 2] unfolding 3 by (simp add: 4)
qed

section \<open>The media type\<close>

text \<open>
  C9. For every input whose declared media type is none of \<^verbatim>\<open>application/json\<close>,
  \<^verbatim>\<open>image/png\<close> and \<^verbatim>\<open>image/webp\<close>, extraction raises the error of
  \<^verbatim>\<open>assertUnreachable\<close>, whatever the file holds and whatever the collaborators
  would return: the content is not read and nothing is extracted.
\<close>

theorem unsupported_media_type:
  assumes "file_type f \<notin> {''application/json'', ''image/png'', ''image/webp''}"
  shows "fromFile L f = Inl UnsupportedMediaType"
  using assms by (simp add: fromFile_def assertUnreachable_def)

theorem unsupported_media_type_witness:
  "fromFile (sample_libs [] Map.empty) (webp_file\<lparr>file_type := ''image/gif''\<rparr>)
     = Inl UnsupportedMediaType"
  using unsupported_media_type
    [of "webp_file\<lparr>file_type := ''image/gif''\<rparr>" "sample_libs [] Map.empty"]
  by simp

end
